theory Spec2Isabelle
  imports Main
begin

section \<open>Domain types (package types)\<close>

text \<open>
  Modelled from the spec: the declarations of \<open>types.OrgID\<close>, \<open>types.ClusterName\<close> and
  \<open>types.ClusterReport\<close> are not among the sources. The spec calls OrgID an integer and the
  other two strings; \<open>readOrganizationID\<close> converts to OrgID from Go's \<open>int\<close>, so OrgID is
  taken to be a 64-bit signed integer, and \<open>fitsOrgID\<close> is its range.
\<close>

type_synonym OrgID = int
type_synonym ClusterName = string
type_synonym ClusterReport = string

definition fitsOrgID :: "int \<Rightarrow> bool" where
  "fitsOrgID n \<longleftrightarrow> - (2 ^ 63) \<le> n \<and> n < 2 ^ 63"

section \<open>Errors\<close>

text \<open>
  Go's \<open>error\<close> values met in package consumer and in the results of the handlers'
  helpers: the string errors made by \<open>errors.New\<close>, the two kinds of error of
  \<open>json.Unmarshal\<close> (a syntax error; a type error, with the kind of the JSON value and the
  field it was meant for), and the errors of the collaborators (broker client, storage),
  which are opaque here.
\<close>

datatype error =
    SyntaxError
  | UnmarshalTypeError string string
  | ErrorString string
  | ExternalError string

section \<open>Decimal text of integers\<close>

text \<open>
  The decimal text of an integer: what the verb \<open>%v\<close> prints for an \<open>int64\<close>, and the
  text of an integer literal in JSON.
\<close>

definition digitChar :: "nat \<Rightarrow> char" where
  "digitChar d = ''0123456789'' ! (d mod 10)"

fun formatNat :: "nat \<Rightarrow> string" where
  "formatNat n = (if n < 10 then [digitChar n] else formatNat (n div 10) @ [digitChar n])"

declare formatNat.simps [simp del]

definition formatInt :: "int \<Rightarrow> string" where
  "formatInt i = (if i < 0 then CHR ''-'' # formatNat (nat (- i)) else formatNat (nat i))"

section \<open>JSON payloads and \<open>json.Unmarshal\<close> into \<open>incomingMessage\<close>\<close>

text \<open>
  \<open>parseMessage\<close> leaves the decoding to \<open>json.Unmarshal\<close> of Go's package
  encoding/json, which is not code of this repository. This section models what that
  function does with the struct \<open>incomingMessage\<close>, as its documentation describes it:
  keys are matched to the fields' tags, exactly or ignoring case; \<open>null\<close> sets a pointer
  to nil and has no effect on a struct; a value that does not fit the type of its field is
  skipped, and the earliest such type error is returned at the end; a later member of an
  object overwrites an earlier one for the same field.
\<close>

text \<open>
  A JSON text. Numbers keep the distinction that matters when a number is stored into an
  integer field: \<open>JInt\<close> is a literal that is an optional minus sign and digits, \<open>JFrac\<close>
  any other number literal (with a fraction or an exponent), kept as its text. An object is
  the list of its members in the order of the text, duplicates included; the keys are
  the bytes of the unquoted key, in UTF-8.
\<close>

datatype json =
    JNull
  | JBool bool
  | JInt int
  | JFrac string
  | JString string
  | JArray "json list"
  | JObject "(string \<times> json) list"

text \<open>
  The bytes of a message (\<open>[]byte\<close>) are represented by what the syntax check of
  \<open>json.Unmarshal\<close> makes of them: \<open>None\<close> for bytes that are not one valid JSON text,
  \<open>Some j\<close> for the text of the value \<open>j\<close>.
\<close>

type_synonym payload = "json option"

record incomingMessage =
  Organization :: "OrgID option"
  ClusterName :: "ClusterName option"
  Report :: "ClusterReport option"

definition zeroMessage :: incomingMessage where
  "zeroMessage = \<lparr>Organization = None, ClusterName = None, Report = None\<rparr>"

datatype field = FOrganization | FClusterName | FReport

fun fieldName :: "field \<Rightarrow> string" where
  "fieldName FOrganization = ''OrgID''"
| "fieldName FClusterName = ''ClusterName''"
| "fieldName FReport = ''Report''"

text \<open>
  \<open>json.Unmarshal\<close> matches an object key to a struct field by its tag, exactly or else
  ignoring case. Ignoring case is Unicode simple case folding; on names made of ASCII
  letters that is: ASCII letters compare without case, and the two non-ASCII letters that
  fold to ASCII ones, U+017F (long s, bytes C5 BF) and U+212A (Kelvin sign, bytes E2 84 AA),
  count as \<open>s\<close> and \<open>k\<close>.
\<close>

definition toLower :: "char \<Rightarrow> char" where
  "toLower c =
     (if 65 \<le> (of_char c :: nat) \<and> (of_char c :: nat) \<le> 90
      then (case c of Char b0 b1 b2 b3 b4 b5 b6 b7 \<Rightarrow> Char b0 b1 b2 b3 b4 True b6 b7)
      else c)"

fun foldName :: "string \<Rightarrow> string" where
  "foldName [] = []"
| "foldName (c # cs) =
     (if (of_char c :: nat) = 197 \<and> take 1 (map of_char cs) = [191 :: nat]
        then CHR ''s'' # foldName (drop 1 cs)
      else if (of_char c :: nat) = 226 \<and> take 2 (map of_char cs) = [132, 170 :: nat]
        then CHR ''k'' # foldName (drop 2 cs)
      else toLower c # foldName cs)"

definition fieldOf :: "string \<Rightarrow> field option" where
  "fieldOf key =
     (if foldName key = ''orgid'' then Some FOrganization
      else if foldName key = ''clustername'' then Some FClusterName
      else if foldName key = ''report'' then Some FReport
      else None)"

fun kindOf :: "json \<Rightarrow> string" where
  "kindOf JNull = ''null''"
| "kindOf (JBool b) = ''bool''"
| "kindOf (JInt n) = ''number''"
| "kindOf (JFrac s) = ''number''"
| "kindOf (JString s) = ''string''"
| "kindOf (JArray xs) = ''array''"
| "kindOf (JObject kvs) = ''object''"

text \<open>
  The text that a type error carries for the value that did not fit: the kind of the
  value, and for a number that is no \<open>OrgID\<close> (out of range, or written with a fraction or
  an exponent) the word \<open>number\<close> followed by the literal. An integer literal that is
  out of range is the decimal text of its value.
\<close>

fun typeErrorValue :: "field \<Rightarrow> json \<Rightarrow> string" where
  "typeErrorValue FOrganization (JInt n) = ''number '' @ formatInt n"
| "typeErrorValue FOrganization (JFrac s) = ''number '' @ s"
| "typeErrorValue f v = kindOf v"

text \<open>
  The decoder's state while it walks an object: the struct being filled and the saved
  error. \<open>saveError\<close> keeps the earliest type error; decoding goes on after it.
\<close>

type_synonym decodeState = "incomingMessage \<times> error option"

definition saveError :: "error \<Rightarrow> error option \<Rightarrow> error option" where
  "saveError err saved = (case saved of None \<Rightarrow> Some err | Some e \<Rightarrow> Some e)"

text \<open>
  Storing one value into a pointer field. \<open>null\<close> sets the pointer to nil. Any other
  value first makes the pointer point somewhere (a nil pointer gets a fresh zero value),
  then is stored if it has the field's type: an integer literal in range for \<open>OrgID\<close>, a
  string for the other two. A value of another type is a type error and leaves the
  pointed-to value as it is.
\<close>

definition alloc :: "'a \<Rightarrow> 'a option \<Rightarrow> 'a option" where
  "alloc zero p = (case p of None \<Rightarrow> Some zero | Some x \<Rightarrow> Some x)"

fun store :: "field \<Rightarrow> json \<Rightarrow> decodeState \<Rightarrow> decodeState" where
  "store FOrganization v (m, e) =
     (case v of
        JNull \<Rightarrow> (m\<lparr>Organization := None\<rparr>, e)
      | JInt n \<Rightarrow>
          if fitsOrgID n then (m\<lparr>Organization := Some n\<rparr>, e)
          else (m\<lparr>Organization := alloc 0 (Organization m)\<rparr>,
                saveError (UnmarshalTypeError (typeErrorValue FOrganization v) (fieldName FOrganization)) e)
      | _ \<Rightarrow> (m\<lparr>Organization := alloc 0 (Organization m)\<rparr>,
              saveError (UnmarshalTypeError (typeErrorValue FOrganization v) (fieldName FOrganization)) e))"
| "store FClusterName v (m, e) =
     (case v of
        JNull \<Rightarrow> (m\<lparr>ClusterName := None\<rparr>, e)
      | JString s \<Rightarrow> (m\<lparr>ClusterName := Some s\<rparr>, e)
      | _ \<Rightarrow> (m\<lparr>ClusterName := alloc [] (ClusterName m)\<rparr>,
              saveError (UnmarshalTypeError (typeErrorValue FClusterName v) (fieldName FClusterName)) e))"
| "store FReport v (m, e) =
     (case v of
        JNull \<Rightarrow> (m\<lparr>Report := None\<rparr>, e)
      | JString s \<Rightarrow> (m\<lparr>Report := Some s\<rparr>, e)
      | _ \<Rightarrow> (m\<lparr>Report := alloc [] (Report m)\<rparr>,
              saveError (UnmarshalTypeError (typeErrorValue FReport v) (fieldName FReport)) e))"

text \<open>The members of an object, in order; a key that matches no field is skipped.\<close>

fun object :: "(string \<times> json) list \<Rightarrow> decodeState \<Rightarrow> decodeState" where
  "object [] st = st"
| "object ((key, v) # kvs) st =
     object kvs (case fieldOf key of None \<Rightarrow> st | Some f \<Rightarrow> store f v st)"

text \<open>
  \<open>json.Unmarshal(data, &deserialized)\<close>: the struct is passed in and returned updated
  beside the error. Invalid syntax is reported before anything is stored. A top-level
  \<open>null\<close> has no effect on a struct and is no error; a top-level value that is neither
  an object nor \<open>null\<close> is a type error.
\<close>

definition Unmarshal :: "payload \<Rightarrow> incomingMessage \<Rightarrow> error option \<times> incomingMessage" where
  "Unmarshal data v =
     (case data of
        None \<Rightarrow> (Some SyntaxError, v)
      | Some j \<Rightarrow>
          (case j of
             JNull \<Rightarrow> (None, v)
           | JObject kvs \<Rightarrow> (let (v', e) = object kvs (v, None) in (e, v'))
           | _ \<Rightarrow> (Some (UnmarshalTypeError (kindOf j) []), v)))"

section \<open>Package consumer\<close>

subsection \<open>parseMessage\<close>

text \<open>The four results of the Go function, the error last (\<open>None\<close> is Go's nil error).\<close>

definition missingAttribute :: "string \<Rightarrow> error" where
  "missingAttribute name =
     ErrorString (''Missing required attribute '' @ [CHR 0x27] @ name @ [CHR 0x27])"

definition parseMessage ::
  "payload \<Rightarrow> OrgID \<times> ClusterName \<times> ClusterReport \<times> error option" where
  "parseMessage messageValue =
     (let (err, deserialized) = Unmarshal messageValue zeroMessage in
      if err \<noteq> None then (0, [], [], err)
      else if Organization deserialized = None
        then (0, [], [], Some (missingAttribute ''OrgID''))
      else if ClusterName deserialized = None
        then (0, [], [], Some (missingAttribute ''ClusterName''))
      else if Report deserialized = None
        then (0, [], [], Some (missingAttribute ''Report''))
      else (the (Organization deserialized), the (ClusterName deserialized),
            the (Report deserialized), None))"

subsection \<open>The consumer, its collaborators and its effects\<close>

text \<open>
  \<open>broker.Configuration\<close>, with the fields that \<open>loadBrokerConfiguration\<close> fills, and the
  fields of \<open>sarama.ConsumerMessage\<close> that the code reads.
\<close>

record broker_Configuration =
  Address :: string
  Topic :: string
  Group :: string

record sarama_ConsumerMessage =
  Offset :: int
  Value :: payload

text \<open>
  What the code does to the outside is kept in a trace, in order: the lines it logs and
  the calls it makes to the storage and to the broker client.
\<close>

datatype logArg = ArgInt int | ArgString string | ArgError "error option"

datatype event =
    Printf string "logArg list"
  | Println "logArg list"
  | CallWriteReportForCluster OrgID ClusterName ClusterReport
  | CallPartitionConsumerClose
  | CallConsumerClose

text \<open>
  The collaborators are interfaces of other packages. Each method is a parameter: a
  function of the state \<open>'w\<close> of the outside world (database, broker), which returns its
  result and the new state of the world.
\<close>

record 'w storage_Storage =
  WriteReportForCluster ::
    "OrgID \<Rightarrow> ClusterName \<Rightarrow> ClusterReport \<Rightarrow> 'w \<Rightarrow> error option \<times> 'w"

record 'w sarama_PartitionConsumer =
  PartitionConsumer_Close :: "'w \<Rightarrow> error option \<times> 'w"

record 'w sarama_Consumer =
  Partitions :: "string \<Rightarrow> 'w \<Rightarrow> (error + int list) \<times> 'w"
  ConsumePartition ::
    "string \<Rightarrow> int \<Rightarrow> int \<Rightarrow> 'w \<Rightarrow> (error + 'w sarama_PartitionConsumer) \<times> 'w"
  Consumer_Close :: "'w \<Rightarrow> error option \<times> 'w"

record 'w Impl =
  Configuration :: broker_Configuration
  Consumer :: "'w sarama_Consumer"
  PartitionConsumer :: "'w sarama_PartitionConsumer"
  Storage :: "'w storage_Storage"

record 'w state =
  world :: 'w
  trace :: "event list"

definition emit :: "event \<Rightarrow> 'w state \<Rightarrow> 'w state" where
  "emit ev st = st\<lparr>trace := trace st @ [ev]\<rparr>"

text \<open>
  How a call ends: it returns a value, it panics, or it is suspended for ever on a channel
  that delivers nothing more.
\<close>

datatype 'a outcome = Returns 'a | Panics | Blocks

subsection \<open>The broker client of sarama\<close>

text \<open>
  \<open>New\<close> makes its broker client with \<open>sarama.NewConsumer\<close>, and with nothing else. The
  client is code of package sarama, not of this repository; what matters of it here is
  the method \<open>Partitions\<close>. It looks the topic up in the metadata of the broker, which
  gives the partitions of the topic or fails, and it reports a topic for which it finds no
  partition as the error \<open>ErrUnknownTopicOrPartition\<close>: the list it returns without an error
  is never empty. \<open>metadata\<close> stands for the lookup.
\<close>

definition ErrUnknownTopicOrPartition :: error where
  "ErrUnknownTopicOrPartition =
     ExternalError
       ''kafka server: Request was for a topic or partition that does not exist on this broker.''"

definition sarama_Partitions ::
  "(string \<Rightarrow> 'w \<Rightarrow> (error + int list) \<times> 'w) \<Rightarrow> string \<Rightarrow> 'w \<Rightarrow> (error + int list) \<times> 'w" where
  "sarama_Partitions metadata topic w =
     (case metadata topic w of
        (Inl err, w') \<Rightarrow> (Inl err, w')
      | (Inr partitions, w') \<Rightarrow>
          if partitions = [] then (Inl ErrUnknownTopicOrPartition, w')
          else (Inr partitions, w'))"

subsection \<open>New\<close>

definition OffsetNewest :: int where
  "OffsetNewest = - 1"

text \<open>
  \<open>sarama.NewConsumer\<close> is the first parameter. \<open>partitions[0]\<close> is an index into a
  slice: on an empty slice Go panics.
\<close>

definition New ::
  "(string list \<Rightarrow> 'w \<Rightarrow> (error + 'w sarama_Consumer) \<times> 'w) \<Rightarrow>
   broker_Configuration \<Rightarrow> 'w storage_Storage \<Rightarrow> 'w \<Rightarrow> (error + 'w Impl) outcome \<times> 'w" where
  "New NewConsumer brokerCfg storage w =
     (case NewConsumer [Address brokerCfg] w of
        (Inl err, w1) \<Rightarrow> (Returns (Inl err), w1)
      | (Inr c, w1) \<Rightarrow>
          (case Partitions c (Topic brokerCfg) w1 of
             (Inl err, w2) \<Rightarrow> (Returns (Inl err), w2)
           | (Inr partitions, w2) \<Rightarrow>
               (case partitions of
                  [] \<Rightarrow> (Panics, w2)
                | p0 # _ \<Rightarrow>
                    (case ConsumePartition c (Topic brokerCfg) p0 OffsetNewest w2 of
                       (Inl err, w3) \<Rightarrow> (Returns (Inl err), w3)
                     | (Inr partitionConsumer, w3) \<Rightarrow>
                         (Returns (Inr \<lparr>Configuration = brokerCfg, Consumer = c,
                                         PartitionConsumer = partitionConsumer,
                                         Storage = storage\<rparr>), w3)))))"

subsection \<open>ProcessMessage\<close>

text \<open>
  \<open>msg\<close> is a pointer: \<open>None\<close> is nil, and reading \<open>msg.Offset\<close> through nil panics.
\<close>

definition ProcessMessage ::
  "'w Impl \<Rightarrow> sarama_ConsumerMessage option \<Rightarrow> 'w state \<Rightarrow> error option outcome \<times> 'w state" where
  "ProcessMessage consumer msg st =
     (case msg of
        None \<Rightarrow> (Panics, st)
      | Some m \<Rightarrow>
          (let st1 = emit (Printf (''Consumed message offset %d'' @ [CHR 0x0A]) [ArgInt (Offset m)]) st;
               (orgID, clusterName, report, err) = parseMessage (Value m);
               st2 = emit (Println [ArgInt orgID, ArgString clusterName, ArgString report,
                                    ArgError err]) st1
           in if err \<noteq> None
              then (Returns err,
                    emit (Println [ArgString ''Error parsing message from Kafka:'', ArgError err]) st2)
              else
                (let (err', w') =
                       WriteReportForCluster (Storage consumer) orgID clusterName report (world st2);
                     st3 = emit (CallWriteReportForCluster orgID clusterName report)
                             (st2\<lparr>world := w'\<rparr>)
                 in if err' \<noteq> None
                    then (Returns err',
                          emit (Println [ArgString ''Error writing report to database:'',
                                         ArgError err']) st3)
                    else (Returns None, st3))))"

subsection \<open>Start\<close>

text \<open>
  The loop of \<open>Start\<close> receives from the channel \<open>PartitionConsumer.Messages()\<close>. The list
  \<open>messages\<close> is what the channel delivers, in order: \<open>Some m\<close> is a message, \<open>None\<close> the
  nil that a receive from a closed channel yields. When the list is used up the channel
  delivers nothing more and the receive never comes back: the call \<open>Blocks\<close>. A run on
  an endless stream of messages passes through these states, one for each finite prefix of
  the stream. The loop has no \<open>break\<close> and the function no \<open>return\<close>; the counter
  \<open>consumed\<close> is written and never read.
\<close>

fun Start_loop ::
  "'w Impl \<Rightarrow> sarama_ConsumerMessage option list \<Rightarrow> nat \<Rightarrow> 'w state \<Rightarrow>
   error option outcome \<times> 'w state" where
  "Start_loop consumer [] consumed st = (Blocks, st)"
| "Start_loop consumer (msg # rest) consumed st =
     (case ProcessMessage consumer msg st of
        (Returns err, st') \<Rightarrow>
          Start_loop consumer rest (consumed + 1)
            (if err \<noteq> None
             then emit (Println [ArgString ''Error processing message consumed from Kafka:'',
                                 ArgError err]) st'
             else st')
      | (Panics, st') \<Rightarrow> (Panics, st')
      | (Blocks, st') \<Rightarrow> (Blocks, st'))"

definition Start ::
  "'w Impl \<Rightarrow> sarama_ConsumerMessage option list \<Rightarrow> 'w state \<Rightarrow>
   error option outcome \<times> 'w state" where
  "Start consumer messages st =
     Start_loop consumer messages 0
       (emit (Printf (''Consumer has been started, waiting for messages send to topic %s'' @ [CHR 0x0A])
                [ArgString (Topic (Configuration consumer))]) st)"

subsection \<open>Close\<close>

definition Close :: "'w Impl \<Rightarrow> 'w state \<Rightarrow> error option \<times> 'w state" where
  "Close consumer st =
     (let (err, w1) = PartitionConsumer_Close (PartitionConsumer consumer) (world st);
          st1 = emit CallPartitionConsumerClose (st\<lparr>world := w1\<rparr>)
      in if err \<noteq> None then (err, st1)
         else
           (let (err2, w2) = Consumer_Close (Consumer consumer) (world st1)
            in (err2, emit CallConsumerClose (st1\<lparr>world := w2\<rparr>))))"

section \<open>Package server: parameters of the route\<close>

text \<open>
  \<open>paramValue\<close> is the \<open>interface{}\<close> field of \<open>RouterParsingError\<close>: the code stores either
  the string of the parameter or the parsed \<open>int64\<close> in it.
\<close>

datatype paramValue = StringValue string | Int64Value int

datatype routerError =
    RouterMissingParamError string
  | RouterParsingError string paramValue string

fun formatValue :: "paramValue \<Rightarrow> string" where
  "formatValue (StringValue s) = s"
| "formatValue (Int64Value i) = formatInt i"

text \<open>The two \<open>Error()\<close> methods.\<close>

fun Error :: "routerError \<Rightarrow> string" where
  "Error (RouterMissingParamError paramName) = ''missing param '' @ paramName"
| "Error (RouterParsingError paramName paramValue errString) =
     ''Error during parsing param '' @ paramName @ '' with value '' @ formatValue paramValue
       @ ''. Error: '' @ errString"

text \<open>
  \<open>strconv.ParseInt(value, 10, 64)\<close>: an optional sign, then at least one decimal digit and
  nothing else, and the number must be an \<open>int64\<close>. \<open>None\<close> stands for either of
  its errors (syntax, range), which the caller does not tell apart.
\<close>

definition digitVal :: "char \<Rightarrow> nat option" where
  "digitVal c =
     (if 48 \<le> (of_char c :: nat) \<and> (of_char c :: nat) \<le> 57
      then Some ((of_char c :: nat) - 48) else None)"

fun parseDigits :: "string \<Rightarrow> nat \<Rightarrow> nat option" where
  "parseDigits [] acc = Some acc"
| "parseDigits (c # cs) acc =
     (case digitVal c of None \<Rightarrow> None | Some d \<Rightarrow> parseDigits cs (10 * acc + d))"

definition ParseInt :: "string \<Rightarrow> int option" where
  "ParseInt s =
     (case s of
        [] \<Rightarrow> None
      | c # cs \<Rightarrow>
          (let neg = (c = CHR ''-'');
               ds = (if c = CHR ''+'' \<or> c = CHR ''-'' then cs else s)
           in if ds = [] then None
              else (case parseDigits ds 0 of
                      None \<Rightarrow> None
                    | Some un \<Rightarrow>
                        if \<not> neg \<and> un \<ge> 2 ^ 63 then None
                        else if neg \<and> un > 2 ^ 63 then None
                        else Some (if neg then - int un else int un))))"

text \<open>
  A request is represented by \<open>mux.Vars(request)\<close>, the map from the names of the route's
  parameters to their values.
\<close>

type_synonym request = "string \<rightharpoonup> string"

definition GetRouterParam :: "request \<Rightarrow> string \<Rightarrow> routerError + string" where
  "GetRouterParam request paramName =
     (case request paramName of
        None \<Rightarrow> Inl (RouterMissingParamError paramName)
      | Some v \<Rightarrow> Inr v)"

definition GetRouterIntParam :: "request \<Rightarrow> string \<Rightarrow> routerError + int" where
  "GetRouterIntParam request paramName =
     (case GetRouterParam request paramName of
        Inl err \<Rightarrow> Inl err
      | Inr v \<Rightarrow>
          (case ParseInt v of
             None \<Rightarrow> Inl (RouterParsingError paramName (StringValue v) ''integer expected'')
           | Some intValue \<Rightarrow> Inr intValue))"

definition GetRouterPositiveIntParam :: "request \<Rightarrow> string \<Rightarrow> routerError + int" where
  "GetRouterPositiveIntParam request paramName =
     (case GetRouterIntParam request paramName of
        Inl err \<Rightarrow> Inl err
      | Inr v \<Rightarrow>
          if v \<le> 0
          then Inl (RouterParsingError paramName (Int64Value v) ''positive integer expected'')
          else Inr v)"

text \<open>
  The effects of the two handlers' helpers: the lines logged and the responses written to
  the \<open>http.ResponseWriter\<close>, each a status code and the text sent with it.
  \<open>responses.SendInternalServerError\<close> (package responses of insights-operator-utils) sends
  status 500.
\<close>

record http_state =
  logged :: "string list"
  sent :: "(nat \<times> string) list"

definition StatusBadRequest :: nat where
  "StatusBadRequest = 400"

definition StatusInternalServerError :: nat where
  "StatusInternalServerError = 500"

definition logPrintln :: "string \<Rightarrow> http_state \<Rightarrow> http_state" where
  "logPrintln message st = st\<lparr>logged := logged st @ [message]\<rparr>"

definition Send :: "nat \<Rightarrow> string \<Rightarrow> http_state \<Rightarrow> http_state" where
  "Send status message st = st\<lparr>sent := sent st @ [(status, message)]\<rparr>"

definition SendInternalServerError :: "string \<Rightarrow> http_state \<Rightarrow> http_state" where
  "SendInternalServerError message st = Send StatusInternalServerError message st"

text \<open>
  \<open>uuid.Parse\<close> (package uuid) is a parameter: it gives the error for a string, \<open>None\<close> for
  a string that it accepts.
\<close>

definition readClusterName ::
  "(string \<Rightarrow> error option) \<Rightarrow> request \<Rightarrow> http_state \<Rightarrow> (error + ClusterName) \<times> http_state" where
  "readClusterName uuid_Parse request st =
     (case request ''cluster'' of
        None \<Rightarrow>
          (let message = ''Cluster name is not provided''
           in (Inl (ErrorString message), SendInternalServerError message (logPrintln message st)))
      | Some clusterName \<Rightarrow>
          if uuid_Parse clusterName \<noteq> None
          then (let message = ''Cluster name format is invalid''
                in (Inl (ErrorString message),
                    SendInternalServerError message (logPrintln message st)))
          else (Inr clusterName, st))"

text \<open>
  In \<open>types.OrgID(int(organizationID))\<close> the value is an \<open>int64\<close>; under the model of
  \<open>OrgID\<close> above the two conversions leave it as it is.
\<close>

definition readOrganizationID :: "request \<Rightarrow> http_state \<Rightarrow> (error + OrgID) \<times> http_state" where
  "readOrganizationID request st =
     (case GetRouterPositiveIntParam request ''organization'' of
        Inl err \<Rightarrow>
          (let message = ''Error getting organization ID from request '' @ Error err;
               st1 = logPrintln message st
           in (Inl (ErrorString message),
               (case err of
                  RouterParsingError n v r \<Rightarrow> Send StatusBadRequest (Error err) st1
                | _ \<Rightarrow> Send StatusInternalServerError (Error err) st1)))
      | Inr organizationID \<Rightarrow> (Inr organizationID, st))"

section \<open>Notions used to state the properties\<close>

text \<open>
  The values that the members of an object bind to a field, in the order of the text:
  those of the members whose key \<open>json.Unmarshal\<close> matches to the field.
\<close>

definition bindings :: "field \<Rightarrow> (string \<times> json) list \<Rightarrow> json list" where
  "bindings f kvs = map snd (filter (\<lambda>kv. fieldOf (fst kv) = Some f) kvs)"

text \<open>
  The values that can be stored into a field without a type error, and the payloads on
  which \<open>json.Unmarshal\<close> into \<open>incomingMessage\<close> reports an error: invalid syntax, a
  top-level value that is neither an object nor \<open>null\<close>, and an object with a member that
  matches a field and cannot be stored into it.
\<close>

fun accepts :: "field \<Rightarrow> json \<Rightarrow> bool" where
  "accepts f JNull = True"
| "accepts FOrganization (JInt n) = fitsOrgID n"
| "accepts FClusterName (JString s) = True"
| "accepts FReport (JString s) = True"
| "accepts f v = False"

definition mistyped :: "string \<times> json \<Rightarrow> bool" where
  "mistyped kv = (case fieldOf (fst kv) of None \<Rightarrow> False | Some f \<Rightarrow> \<not> accepts f (snd kv))"

fun malformed :: "payload \<Rightarrow> bool" where
  "malformed None = True"
| "malformed (Some JNull) = False"
| "malformed (Some (JObject kvs)) = list_ex mistyped kvs"
| "malformed (Some j) = True"

fun isDecodeError :: "error \<Rightarrow> bool" where
  "isDecodeError SyntaxError = True"
| "isDecodeError (UnmarshalTypeError v f) = True"
| "isDecodeError e = False"



text \<open>
  A field of the decoded struct is missing when its pointer is nil. \<open>slot\<close> reads a field
  back as the JSON value it holds, and \<open>fieldsBefore\<close> lists the fields that
  \<open>parseMessage\<close> checks before a given one.
\<close>

fun isNil :: "field \<Rightarrow> incomingMessage \<Rightarrow> bool" where
  "isNil FOrganization m = (Organization m = None)"
| "isNil FClusterName m = (ClusterName m = None)"
| "isNil FReport m = (Report m = None)"



text \<open>The calls of the storage's write operation in a trace, with their arguments.\<close>

fun persistCalls :: "event list \<Rightarrow> (OrgID \<times> ClusterName \<times> ClusterReport) list" where
  "persistCalls [] = []"
| "persistCalls (CallWriteReportForCluster orgID clusterName report # es) =
     (orgID, clusterName, report) # persistCalls es"
| "persistCalls (e # es) = persistCalls es"

section \<open>Collaborators for the examples\<close>

text \<open>
  Collaborators with fixed answers, used where a property is shown at a concrete input.
  Their world is a counter of the reports written. The broker client is sarama's, on a
  broker whose metadata gives the list \<open>partitions\<close> for every topic.
\<close>

definition stubStorage :: "error option \<Rightarrow> nat storage_Storage" where
  "stubStorage result =
     \<lparr>WriteReportForCluster =
        (\<lambda>orgID clusterName report w. (result, if result = None then Suc w else w))\<rparr>"

definition stubPartitionConsumer :: "error option \<Rightarrow> nat sarama_PartitionConsumer" where
  "stubPartitionConsumer closeResult = \<lparr>PartitionConsumer_Close = (\<lambda>w. (closeResult, w))\<rparr>"

definition stubConsumer :: "int list \<Rightarrow> error option \<Rightarrow> nat sarama_Consumer" where
  "stubConsumer partitions closeResult =
     \<lparr>Partitions = sarama_Partitions (\<lambda>topic w. (Inr partitions, w)),
      ConsumePartition = (\<lambda>topic partition offset w. (Inr (stubPartitionConsumer None), w)),
      Consumer_Close = (\<lambda>w. (closeResult, w))\<rparr>"

definition stubConfiguration :: broker_Configuration where
  "stubConfiguration = \<lparr>Address = ''localhost:9092'', Topic = ''results'', Group = ''aggregator''\<rparr>"

definition stubImpl :: "error option \<Rightarrow> error option \<Rightarrow> error option \<Rightarrow> nat Impl" where
  "stubImpl writeResult partitionCloseResult closeResult =
     \<lparr>Configuration = stubConfiguration,
      Consumer = stubConsumer [0] closeResult,
      PartitionConsumer = stubPartitionConsumer partitionCloseResult,
      Storage = stubStorage writeResult\<rparr>"

definition exampleMessage :: sarama_ConsumerMessage where
  "exampleMessage =
     \<lparr>Offset = 7,
      Value = Some (JObject [(''OrgID'', JInt 1),
                             (''ClusterName'', JString ''aaaaaaaa-bbbb-cccc-dddd-000000000000''),
                             (''Report'', JString ''{}'')])\<rparr>"

text \<open>
  The offsets of the messages that a trace reports as consumed: one line of
  \<open>ProcessMessage\<close> for each message it was given.
\<close>

fun consumedOffsets :: "event list \<Rightarrow> int list" where
  "consumedOffsets [] = []"
| "consumedOffsets (Printf fmt args # es) =
     (if fmt = ''Consumed message offset %d'' @ [CHR 0x0A]
      then (case args of [ArgInt n] \<Rightarrow> n # consumedOffsets es | _ \<Rightarrow> consumedOffsets es)
      else consumedOffsets es)"
| "consumedOffsets (e # es) = consumedOffsets es"

text \<open>The kind of a router error that \<open>readOrganizationID\<close> asks for.\<close>

fun isParsingError :: "routerError \<Rightarrow> bool" where
  "isParsingError (RouterParsingError paramName paramValue errString) = True"
| "isParsingError (RouterMissingParamError paramName) = False"

section \<open>Properties of decoding\<close>

subsection \<open>The decoder's walk over an object\<close>

lemma persistCalls_append: "persistCalls (xs @ ys) = persistCalls xs @ persistCalls ys"
  by (induction xs rule: persistCalls.induct) simp_all



lemma store_other_field: "g \<noteq> f \<Longrightarrow> isNil f (fst (store g v st)) = isNil f (fst st)"
  by (cases st; cases g; cases f; cases v) simp_all




lemma store_accepted_error: "accepts f v \<Longrightarrow> snd (store f v st) = snd st"
  by (cases st; cases f; cases v) simp_all

lemma store_mistyped_error:
  "\<not> accepts f v \<Longrightarrow> snd st = None \<Longrightarrow>
   snd (store f v st) = Some (UnmarshalTypeError (typeErrorValue f v) (fieldName f))"
  by (cases st; cases f; cases v) (simp_all add: saveError_def)

lemma store_keeps_error: "snd st = Some e \<Longrightarrow> snd (store f v st) = Some e"
  by (cases st; cases f; cases v) (simp_all add: saveError_def)

text \<open>A field that no member is matched to stays as it was.\<close>

lemma object_absent_field:
  "bindings f kvs = [] \<Longrightarrow> isNil f (fst (object kvs st)) = isNil f (fst st)"
proof (induction kvs arbitrary: st)
  case Nil
  then show ?case by simp
next
  case (Cons kv kvs)
  obtain key v where kv: "kv = (key, v)" by (cases kv)
  from Cons.prems have here: "fieldOf key \<noteq> Some f" and rest: "bindings f kvs = []"
    by (auto simp: bindings_def kv split: if_splits)
  show ?case
  proof (cases "fieldOf key")
    case None
    then show ?thesis using Cons.IH [OF rest] by (simp add: kv)
  next
    case (Some g)
    with here have "g \<noteq> f" by simp
    then show ?thesis using Cons.IH [OF rest] Some by (simp add: kv store_other_field)
  qed
qed

text \<open>The first type error is the one reported; without one, none is reported.\<close>

lemma object_keeps_error: "snd st = Some e \<Longrightarrow> snd (object kvs st) = Some e"
proof (induction kvs arbitrary: st)
  case Nil
  then show ?case by simp
next
  case (Cons kv kvs)
  obtain key v where kv: "kv = (key, v)" by (cases kv)
  have "snd (case fieldOf key of None \<Rightarrow> st | Some f \<Rightarrow> store f v st) = Some e"
    using Cons.prems by (simp add: store_keeps_error split: option.splits)
  then show ?case using Cons.IH by (simp add: kv)
qed

lemma object_accepted_error: "\<not> list_ex mistyped kvs \<Longrightarrow> snd (object kvs st) = snd st"
proof (induction kvs arbitrary: st)
  case Nil
  then show ?case by simp
next
  case (Cons kv kvs)
  obtain key v where kv: "kv = (key, v)" by (cases kv)
  from Cons.prems have here: "\<not> mistyped (key, v)" and rest: "\<not> list_ex mistyped kvs"
    by (simp_all add: kv)
  have "snd (case fieldOf key of None \<Rightarrow> st | Some f \<Rightarrow> store f v st) = snd st"
    using here by (simp add: mistyped_def store_accepted_error split: option.splits)
  then show ?case using Cons.IH [OF rest] by (simp add: kv)
qed

lemma object_mistyped_error:
  "list_ex mistyped kvs \<Longrightarrow> snd st = None \<Longrightarrow>
   \<exists>v f. snd (object kvs st) = Some (UnmarshalTypeError v f)"
proof (induction kvs arbitrary: st)
  case Nil
  then show ?case by simp
next
  case (Cons kv kvs)
  obtain key v where kv: "kv = (key, v)" by (cases kv)
  let ?st' = "case fieldOf key of None \<Rightarrow> st | Some f \<Rightarrow> store f v st"
  show ?case
  proof (cases "mistyped (key, v)")
    case True
    then obtain f where f: "fieldOf key = Some f" "\<not> accepts f v"
      by (auto simp: mistyped_def split: option.splits)
    then have "snd ?st' = Some (UnmarshalTypeError (typeErrorValue f v) (fieldName f))"
      using Cons.prems(2) by (simp add: store_mistyped_error)
    then have "snd (object kvs ?st') = Some (UnmarshalTypeError (typeErrorValue f v) (fieldName f))"
      by (rule object_keeps_error)
    then show ?thesis by (simp add: kv)
  next
    case False
    then have here: "snd ?st' = None"
      using Cons.prems(2) by (simp add: mistyped_def store_accepted_error split: option.splits)
    from False Cons.prems(1) have "list_ex mistyped kvs" by (simp add: kv)
    from Cons.IH [OF this here] show ?thesis by (simp add: kv)
  qed
qed



subsection \<open>\<open>json.Unmarshal\<close> and \<open>parseMessage\<close>\<close>

lemma Unmarshal_object:
  "Unmarshal (Some (JObject kvs)) m = (snd (object kvs (m, None)), fst (object kvs (m, None)))"
  by (simp add: Unmarshal_def split: prod.splits)

lemma Unmarshal_malformed:
  assumes "malformed p"
  shows "\<exists>e. isDecodeError e \<and> fst (Unmarshal p m) = Some e"
proof (cases p)
  case None
  then show ?thesis by (simp add: Unmarshal_def)
next
  case (Some j)
  show ?thesis
  proof (cases j)
    case (JObject kvs)
    with assms Some have "list_ex mistyped kvs" by simp
    from object_mistyped_error [OF this, of "(m, None)"]
    obtain v f where "snd (object kvs (m, None)) = Some (UnmarshalTypeError v f)" by auto
    then show ?thesis by (simp add: Unmarshal_object Some JObject)
  qed (use assms Some in \<open>simp_all add: Unmarshal_def\<close>)
qed

lemma Unmarshal_wellformed:
  assumes "\<not> malformed p"
  shows "fst (Unmarshal p m) = None"
proof (cases p)
  case None
  with assms show ?thesis by simp
next
  case (Some j)
  show ?thesis
  proof (cases j)
    case (JObject kvs)
    with assms Some have "\<not> list_ex mistyped kvs" by simp
    from object_accepted_error [OF this, of "(m, None)"]
    show ?thesis by (simp add: Unmarshal_object Some JObject)
  qed (use assms Some in \<open>simp_all add: Unmarshal_def\<close>)
qed

text \<open>Keys are matched to the fields without regard to case; other keys match no field.\<close>

lemma fieldOf_examples:
  "fieldOf ''OrgID'' = Some FOrganization"
  "fieldOf ''orgid'' = Some FOrganization"
  "fieldOf ''ClusterName'' = Some FClusterName"
  "fieldOf ''CLUSTERNAME'' = Some FClusterName"
  "fieldOf ''Report'' = Some FReport"
  "fieldOf ''Organization'' = None"
  "fieldOf ''Reports'' = None"
  by (simp_all add: fieldOf_def toLower_def)

text \<open>The text of the type errors, at three values that do not fit their field.\<close>

lemma type_error_examples:
  "parseMessage (Some (JObject [(''OrgID'', JInt 9223372036854775808)]))
     = (0, [], [], Some (UnmarshalTypeError ''number 9223372036854775808'' ''OrgID''))"
  "parseMessage (Some (JObject [(''OrgID'', JFrac ''1.5'')]))
     = (0, [], [], Some (UnmarshalTypeError ''number 1.5'' ''OrgID''))"
  "parseMessage (Some (JObject [(''Report'', JInt 1)]))
     = (0, [], [], Some (UnmarshalTypeError ''number'' ''Report''))"
  by (simp_all add: parseMessage_def Unmarshal_def zeroMessage_def fieldOf_def toLower_def
      fitsOrgID_def saveError_def alloc_def formatInt_def formatNat.simps digitChar_def)

lemma isNil_zeroMessage: "isNil f zeroMessage"
  by (cases f) (simp_all add: zeroMessage_def)

text \<open>A key that is absent from the object leaves its field nil.\<close>

lemma absent_key_nil:
  "bindings f kvs = [] \<Longrightarrow> isNil f (snd (Unmarshal (Some (JObject kvs)) zeroMessage))"
  using object_absent_field [of f kvs "(zeroMessage, None)"]
  by (simp add: Unmarshal_object isNil_zeroMessage)

lemma parseMessage_error:
  "fst (Unmarshal p zeroMessage) = Some e \<Longrightarrow> parseMessage p = (0, [], [], Some e)"
  by (simp add: parseMessage_def case_prod_beta)







subsection \<open>\<open>ProcessMessage\<close> after \<open>parseMessage\<close>\<close>

lemma ProcessMessage_parse_error:
  assumes "parseMessage (Value msg) = (0, [], [], Some e)"
  shows "ProcessMessage consumer (Some msg) st =
           (Returns (Some e),
            st\<lparr>trace := trace st @
               [Printf (''Consumed message offset %d'' @ [CHR 0x0A]) [ArgInt (Offset msg)],
                Println [ArgInt 0, ArgString [], ArgString [], ArgError (Some e)],
                Println [ArgString ''Error parsing message from Kafka:'', ArgError (Some e)]]\<rparr>)"
  using assms by (simp add: ProcessMessage_def emit_def)


subsection \<open>C1: a well-formed message is persisted once\<close>




subsection \<open>C4: the first missing field is the one reported\<close>







subsection \<open>C5: a decode error comes first\<close>

text \<open>
  Claim C5, as the code has it. On every payload on which the structural decode fails
  (\<open>malformed\<close>: bytes that are not valid JSON, a top-level value that is neither an
  object nor \<open>null\<close>, an object in which a key of one of the three fields is bound to a
  value that is neither \<open>null\<close> nor of the field's type), \<open>ProcessMessage\<close> returns
  the decode error, whichever fields are missing, logs it, and does not call the storage.
\<close>

theorem ProcessMessage_decode_error:
  assumes "malformed (Value msg)"
  shows "\<exists>e. isDecodeError e \<and> parseMessage (Value msg) = (0, [], [], Some e) \<and>
           ProcessMessage consumer (Some msg) st =
             (Returns (Some e),
              st\<lparr>trace := trace st @
                 [Printf (''Consumed message offset %d'' @ [CHR 0x0A]) [ArgInt (Offset msg)],
                  Println [ArgInt 0, ArgString [], ArgString [], ArgError (Some e)],
                  Println [ArgString ''Error parsing message from Kafka:'', ArgError (Some e)]]\<rparr>) \<and>
           persistCalls (trace (snd (ProcessMessage consumer (Some msg) st))) = persistCalls (trace st)"
proof -
  from Unmarshal_malformed [OF assms, of zeroMessage]
  obtain e where e: "isDecodeError e" "fst (Unmarshal (Value msg) zeroMessage) = Some e" by auto
  from e(2) have p: "parseMessage (Value msg) = (0, [], [], Some e)" by (rule parseMessage_error)
  note pm = ProcessMessage_parse_error [OF p, of consumer st]
  have "persistCalls (trace (snd (ProcessMessage consumer (Some msg) st))) = persistCalls (trace st)"
    by (simp add: pm persistCalls_append)
  with e(1) p pm show ?thesis by blast
qed

text \<open>The theorem at an object that binds \<open>OrgID\<close> to a string and lacks the other keys.\<close>

theorem ProcessMessage_decode_error_witness:
  "malformed (Some (JObject [(''OrgID'', JString ''1'')])) \<and>
   (\<exists>e. isDecodeError e \<and>
      fst (ProcessMessage (stubImpl None None None)
             (Some \<lparr>Offset = 7, Value = Some (JObject [(''OrgID'', JString ''1'')])\<rparr>)
             \<lparr>world = 0, trace = []\<rparr>) = Returns (Some e)) \<and>
   parseMessage (Some (JObject [(''OrgID'', JString ''1'')]))
     = (0, [], [], Some (UnmarshalTypeError ''string'' ''OrgID''))"
proof -
  let ?msg = "\<lparr>Offset = 7, Value = Some (JObject [(''OrgID'', JString ''1'')])\<rparr>"
  have h: "malformed (Value ?msg)"
    by (simp add: mistyped_def fieldOf_def toLower_def)
  have v: "parseMessage (Some (JObject [(''OrgID'', JString ''1'')]))
             = (0, [], [], Some (UnmarshalTypeError ''string'' ''OrgID''))"
    by (simp add: parseMessage_def Unmarshal_def zeroMessage_def fieldOf_def toLower_def
        saveError_def alloc_def)
  from ProcessMessage_decode_error [OF h, of "stubImpl None None None" "\<lparr>world = 0, trace = []\<rparr>"]
    h v
  show ?thesis by auto
qed

text \<open>
  The claim as it is written counts every payload that is not a JSON object as malformed.
  The payload \<open>null\<close> is not an object, yet it decodes without error, into a struct with
  all fields nil, and the error returned is the validation error for \<open>OrgID\<close>.
\<close>

theorem top_level_null_counterexample:
  "fst (ProcessMessage (stubImpl None None None) (Some \<lparr>Offset = 7, Value = Some JNull\<rparr>)
          \<lparr>world = 0, trace = []\<rparr>)
     = Returns (Some (missingAttribute ''OrgID'')) \<and>
   \<not> isDecodeError (missingAttribute ''OrgID'')"
  by (simp add: ProcessMessage_def parseMessage_def Unmarshal_def zeroMessage_def emit_def
      missingAttribute_def)

subsection \<open>C10: a key bound to null is a missing key\<close>




section \<open>Properties of the consumer\<close>

subsection \<open>C2: construction on a topic without partitions\<close>

text \<open>Each error of the broker client is returned, and no consumer with it.\<close>

lemma New_NewConsumer_error:
  "NewConsumer [Address brokerCfg] w = (Inl err, w1) \<Longrightarrow>
   New NewConsumer brokerCfg storage w = (Returns (Inl err), w1)"
  by (simp add: New_def)


lemma New_ConsumePartition_error:
  "NewConsumer [Address brokerCfg] w = (Inr c, w1) \<Longrightarrow>
   Partitions c (Topic brokerCfg) w1 = (Inr (p0 # ps), w2) \<Longrightarrow>
   ConsumePartition c (Topic brokerCfg) p0 OffsetNewest w2 = (Inl err, w3) \<Longrightarrow>
   New NewConsumer brokerCfg storage w = (Returns (Inl err), w3)"
  by (simp add: New_def)

text \<open>
  The code has no check of its own for an empty list: a client that answered
  \<open>Partitions\<close> with the empty list and no error would make \<open>New\<close> panic at
  \<open>partitions[0]\<close>, and only such an answer would.
\<close>

lemma New_no_partitions:
  "NewConsumer [Address brokerCfg] w = (Inr c, w1) \<Longrightarrow>
   Partitions c (Topic brokerCfg) w1 = (Inr [], w2) \<Longrightarrow>
   New NewConsumer brokerCfg storage w = (Panics, w2)"
  by (simp add: New_def)

lemma New_panics_only_on_empty_list:
  assumes "fst (New NewConsumer brokerCfg storage w) = Panics"
  shows "\<exists>c w1 w2. NewConsumer [Address brokerCfg] w = (Inr c, w1) \<and>
           Partitions c (Topic brokerCfg) w1 = (Inr [], w2)"
  using assms
  by (auto simp: New_def split: prod.splits sum.splits list.splits)

text \<open>The client of sarama gives no such answer.\<close>

lemma sarama_Partitions_nonempty:
  "sarama_Partitions metadata topic w = (Inr partitions, w') \<Longrightarrow> partitions \<noteq> []"
  by (auto simp: sarama_Partitions_def split: prod.splits sum.splits if_splits)


lemma New_sarama_never_panics:
  assumes "\<And>c w1. NewConsumer [Address brokerCfg] w = (Inr c, w1) \<Longrightarrow>
             \<exists>metadata. Partitions c = sarama_Partitions metadata"
  shows "fst (New NewConsumer brokerCfg storage w) \<noteq> Panics"
proof
  assume "fst (New NewConsumer brokerCfg storage w) = Panics"
  from New_panics_only_on_empty_list [OF this]
  obtain c w1 w2 where c: "NewConsumer [Address brokerCfg] w = (Inr c, w1)"
    and p: "Partitions c (Topic brokerCfg) w1 = (Inr [], w2)"
    by blast
  from assms [OF c] obtain metadata where "Partitions c = sarama_Partitions metadata" by blast
  with p have "sarama_Partitions metadata (Topic brokerCfg) w1 = (Inr [], w2)" by simp
  from sarama_Partitions_nonempty [OF this] show False by simp
qed



subsection \<open>C3: the loop of Start\<close>

lemma consumedOffsets_append:
  "consumedOffsets (xs @ ys) = consumedOffsets xs @ consumedOffsets ys"
  by (induction xs rule: consumedOffsets.induct) (simp_all split: list.splits logArg.splits)

text \<open>Given a message, \<open>ProcessMessage\<close> returns, and logs its offset once.\<close>

lemma ProcessMessage_returns:
  "\<exists>err st'. ProcessMessage consumer (Some m) st = (Returns err, st') \<and>
     consumedOffsets (trace st') = consumedOffsets (trace st) @ [Offset m]"
proof -
  obtain orgID clusterName report err where p:
    "parseMessage (Value m) = (orgID, clusterName, report, err)"
    by (cases "parseMessage (Value m)") auto
  obtain err' w' where s:
    "WriteReportForCluster (Storage consumer) orgID clusterName report (world st) = (err', w')"
    by (cases "WriteReportForCluster (Storage consumer) orgID clusterName report (world st)") auto
  show ?thesis
    by (cases err; cases err')
      (simp_all add: ProcessMessage_def emit_def p s consumedOffsets_append)
qed

lemma Start_loop_never_returns: "fst (Start_loop consumer messages consumed st) \<noteq> Returns r"
proof (induction messages arbitrary: consumed st)
  case Nil
  then show ?case by simp
next
  case (Cons msg rest)
  show ?case
  proof (cases "ProcessMessage consumer msg st")
    case (Pair out st')
    then show ?thesis using Cons.IH by (cases out) simp_all
  qed
qed

lemma Start_loop_consumes_all:
  "list_all (\<lambda>msg. msg \<noteq> None) messages \<Longrightarrow>
   fst (Start_loop consumer messages consumed st) = Blocks \<and>
   consumedOffsets (trace (snd (Start_loop consumer messages consumed st))) =
     consumedOffsets (trace st) @ map (\<lambda>msg. Offset (the msg)) messages"
proof (induction messages arbitrary: consumed st)
  case Nil
  then show ?case by simp
next
  case (Cons msg rest)
  then obtain m where m: "msg = Some m" and rest: "list_all (\<lambda>msg. msg \<noteq> None) rest"
    by auto
  from ProcessMessage_returns [of consumer m st]
  obtain err st' where pm: "ProcessMessage consumer (Some m) st = (Returns err, st')"
    and tr: "consumedOffsets (trace st') = consumedOffsets (trace st) @ [Offset m]"
    by blast
  let ?st'' = "if err \<noteq> None
               then emit (Println [ArgString ''Error processing message consumed from Kafka:'',
                                   ArgError err]) st'
               else st'"
  have tr': "consumedOffsets (trace ?st'') = consumedOffsets (trace st) @ [Offset m]"
    using tr by (simp add: emit_def consumedOffsets_append)
  have step: "Start_loop consumer (msg # rest) consumed st =
              Start_loop consumer rest (consumed + 1) ?st''"
    by (simp add: m pm)
  from Cons.IH [OF rest, of "consumed + 1" ?st''] tr' show ?case
    by (simp only: step) (simp add: m)
qed

text \<open>
  Claim C3, as the code has it. When \<open>ProcessMessage\<close> returns an error in an iteration,
  \<open>Start\<close> logs it and goes on with the next delivery. \<open>Start\<close> never returns, whatever
  the subscription delivers; while it is given messages it consumes every one of them,
  in order, after any number of errors, and then stays blocked in the receive.
\<close>

theorem Start_logs_and_continues:
  "(ProcessMessage consumer msg st = (Returns (Some e), st') \<longrightarrow>
      Start_loop consumer (msg # rest) consumed st =
        Start_loop consumer rest (consumed + 1)
          (emit (Println [ArgString ''Error processing message consumed from Kafka:'',
                          ArgError (Some e)]) st')) \<and>
   (\<forall>r. fst (Start consumer messages init) \<noteq> Returns r) \<and>
   (list_all (\<lambda>msg. msg \<noteq> None) messages \<longrightarrow>
      fst (Start consumer messages init) = Blocks \<and>
      consumedOffsets (trace (snd (Start consumer messages init))) =
        consumedOffsets (trace init) @ map (\<lambda>msg. Offset (the msg)) messages)"
proof -
  have a: "ProcessMessage consumer msg st = (Returns (Some e), st') \<longrightarrow>
      Start_loop consumer (msg # rest) consumed st =
        Start_loop consumer rest (consumed + 1)
          (emit (Println [ArgString ''Error processing message consumed from Kafka:'',
                          ArgError (Some e)]) st')"
    by simp
  have b: "\<forall>r. fst (Start consumer messages init) \<noteq> Returns r"
    by (simp add: Start_def Start_loop_never_returns)
  have c: "list_all (\<lambda>msg. msg \<noteq> None) messages \<longrightarrow>
      fst (Start consumer messages init) = Blocks \<and>
      consumedOffsets (trace (snd (Start consumer messages init))) =
        consumedOffsets (trace init) @ map (\<lambda>msg. Offset (the msg)) messages"
  proof
    assume "list_all (\<lambda>msg. msg \<noteq> None) messages"
    from Start_loop_consumes_all [OF this, of consumer 0
        "emit (Printf (''Consumer has been started, waiting for messages send to topic %s''
                         @ [CHR 0x0A]) [ArgString (Topic (Configuration consumer))]) init"]
    show "fst (Start consumer messages init) = Blocks \<and>
      consumedOffsets (trace (snd (Start consumer messages init))) =
        consumedOffsets (trace init) @ map (\<lambda>msg. Offset (the msg)) messages"
      by (simp add: Start_def emit_def consumedOffsets_append)
  qed
  from a b c show ?thesis by blast
qed

text \<open>
  The theorem at two deliveries, a payload that is not JSON and then the message of
  \<open>produceMessages\<close>: the first error is logged, the second message is persisted, and
  \<open>Start\<close> is left waiting.
\<close>

theorem Start_logs_and_continues_witness:
  "fst (Start (stubImpl None None None) [Some \<lparr>Offset = 6, Value = None\<rparr>, Some exampleMessage]
          \<lparr>world = 0, trace = []\<rparr>) = Blocks \<and>
   consumedOffsets (trace (snd (Start (stubImpl None None None)
      [Some \<lparr>Offset = 6, Value = None\<rparr>, Some exampleMessage] \<lparr>world = 0, trace = []\<rparr>))) = [6, 7] \<and>
   persistCalls (trace (snd (Start (stubImpl None None None)
      [Some \<lparr>Offset = 6, Value = None\<rparr>, Some exampleMessage] \<lparr>world = 0, trace = []\<rparr>)))
     = [(1, ''aaaaaaaa-bbbb-cccc-dddd-000000000000'', ''{}'')] \<and>
   Println [ArgString ''Error processing message consumed from Kafka:'', ArgError (Some SyntaxError)]
     \<in> set (trace (snd (Start (stubImpl None None None)
          [Some \<lparr>Offset = 6, Value = None\<rparr>, Some exampleMessage] \<lparr>world = 0, trace = []\<rparr>)))"
proof -
  let ?c = "stubImpl None None None"
  let ?bad = "\<lparr>Offset = 6, Value = None\<rparr>"
  let ?msgs = "[Some ?bad, Some exampleMessage]"
  let ?s0 = "\<lparr>world = 0 :: nat, trace = []\<rparr>"
  let ?s1 = "emit (Printf (''Consumer has been started, waiting for messages send to topic %s''
                            @ [CHR 0x0A]) [ArgString (Topic (Configuration ?c))]) ?s0"
  let ?s2 = "?s1\<lparr>trace := trace ?s1 @
               [Printf (''Consumed message offset %d'' @ [CHR 0x0A]) [ArgInt 6],
                Println [ArgInt 0, ArgString [], ArgString [], ArgError (Some SyntaxError)],
                Println [ArgString ''Error parsing message from Kafka:'',
                         ArgError (Some SyntaxError)]]\<rparr>"
  have h1: "ProcessMessage ?c (Some ?bad) ?s1 = (Returns (Some SyntaxError), ?s2)"
    by (simp add: ProcessMessage_def parseMessage_def Unmarshal_def emit_def)
  have h2: "list_all (\<lambda>msg. msg \<noteq> None) ?msgs" by simp
  note inst = Start_logs_and_continues [where consumer = ?c and msg = "Some ?bad" and st = ?s1
      and e = SyntaxError and st' = ?s2 and rest = "[Some exampleMessage]" and consumed = 0
      and messages = ?msgs and init = ?s0]
  note loop = inst [THEN conjunct1, THEN mp, OF h1]
  have step: "Start ?c ?msgs ?s0 =
      Start_loop ?c [Some exampleMessage] (0 + 1)
        (emit (Println [ArgString ''Error processing message consumed from Kafka:'',
                        ArgError (Some SyntaxError)]) ?s2)"
    unfolding Start_def by (rule loop)
  from inst h2 have all: "fst (Start ?c ?msgs ?s0) = Blocks"
    "consumedOffsets (trace (snd (Start ?c ?msgs ?s0))) = [6, 7]"
    by (simp_all add: exampleMessage_def)
  have rest: "persistCalls (trace (snd (Start ?c ?msgs ?s0)))
                = [(1, ''aaaaaaaa-bbbb-cccc-dddd-000000000000'', ''{}'')]"
    "Println [ArgString ''Error processing message consumed from Kafka:'',
              ArgError (Some SyntaxError)] \<in> set (trace (snd (Start ?c ?msgs ?s0)))"
    by (simp_all only: step)
      (simp_all add: ProcessMessage_def parseMessage_def Unmarshal_def zeroMessage_def
        emit_def fieldOf_def toLower_def fitsOrgID_def stubImpl_def stubStorage_def
        exampleMessage_def)
  from all rest show ?thesis by simp
qed

text \<open>
  The claim as it is written lets \<open>Start\<close> return when the read from the subscription
  fails. The one failure that the receive can show is the nil message of a closed
  channel; on it \<open>Start\<close> does not return an error, it panics in \<open>ProcessMessage\<close>.
\<close>

theorem Start_closed_channel_counterexample:
  "fst (Start (stubImpl None None None) [None] \<lparr>world = 0, trace = []\<rparr>) = Panics"
  by (simp add: Start_def ProcessMessage_def)

subsection \<open>C6: Close\<close>

text \<open>
  Claim C6. \<open>Close\<close> closes the partition subscription first. If that fails, its error is
  returned and the broker connection is not closed: the trace ends with the one call, and
  the world is as the failed call left it. If it succeeds, the connection is closed next,
  in the world that the first call left, and the result of that second call is returned.
\<close>

theorem Close_subscription_then_connection:
  "(PartitionConsumer_Close (PartitionConsumer consumer) (world st) = (Some e, w1) \<longrightarrow>
      Close consumer st =
        (Some e, st\<lparr>world := w1, trace := trace st @ [CallPartitionConsumerClose]\<rparr>)) \<and>
   (PartitionConsumer_Close (PartitionConsumer consumer) (world st) = (None, w1) \<and>
    Consumer_Close (Consumer consumer) w1 = (err, w2) \<longrightarrow>
      Close consumer st =
        (err, st\<lparr>world := w2,
                 trace := trace st @ [CallPartitionConsumerClose, CallConsumerClose]\<rparr>))"
  by (simp add: Close_def emit_def)

text \<open>
  The theorem at a subscription whose close fails, and at one whose close succeeds while
  the connection's close fails.
\<close>

theorem Close_subscription_then_connection_witness:
  "Close (stubImpl None (Some (ExternalError ''subscription'')) None) \<lparr>world = 0, trace = []\<rparr>
     = (Some (ExternalError ''subscription''), \<lparr>world = 0, trace = [CallPartitionConsumerClose]\<rparr>) \<and>
   Close (stubImpl None None (Some (ExternalError ''connection''))) \<lparr>world = 0, trace = []\<rparr>
     = (Some (ExternalError ''connection''),
        \<lparr>world = 0, trace = [CallPartitionConsumerClose, CallConsumerClose]\<rparr>)"
proof -
  let ?c1 = "stubImpl None (Some (ExternalError ''subscription'')) None"
  let ?c2 = "stubImpl None None (Some (ExternalError ''connection''))"
  let ?st = "\<lparr>world = 0 :: nat, trace = []\<rparr>"
  have h1: "PartitionConsumer_Close (PartitionConsumer ?c1) (world ?st)
              = (Some (ExternalError ''subscription''), 0)"
    by (simp add: stubImpl_def stubPartitionConsumer_def)
  have h2: "PartitionConsumer_Close (PartitionConsumer ?c2) (world ?st) = (None, 0) \<and>
            Consumer_Close (Consumer ?c2) 0 = (Some (ExternalError ''connection''), 0)"
    by (simp add: stubImpl_def stubPartitionConsumer_def stubConsumer_def)
  from Close_subscription_then_connection [of ?c1 ?st "ExternalError ''subscription''" 0] h1
    Close_subscription_then_connection [of ?c2 ?st _ 0 "Some (ExternalError ''connection'')" 0] h2
  show ?thesis by simp
qed

section \<open>Properties of the parameters of the route\<close>

lemmas router_simps =
  GetRouterPositiveIntParam_def GetRouterIntParam_def GetRouterParam_def ParseInt_def digitVal_def

lemmas format_simps = formatInt_def formatNat.simps digitChar_def

subsection \<open>The values returned\<close>

text \<open>
  An integer that is returned is an \<open>int64\<close>, and positive where that is asked for; the
  helpers of the handlers return a value only without logging or sending anything.
\<close>

lemma ParseInt_range: "ParseInt s = Some i \<Longrightarrow> fitsOrgID i"
  by (auto simp: ParseInt_def fitsOrgID_def Let_def split: list.splits option.splits if_splits)

lemma GetRouterPositiveIntParam_positive:
  "GetRouterPositiveIntParam request paramName = Inr v \<Longrightarrow> 0 < v \<and> fitsOrgID v"
  by (auto simp: GetRouterPositiveIntParam_def GetRouterIntParam_def GetRouterParam_def
      split: option.splits sum.splits if_splits dest: ParseInt_range)

lemma readOrganizationID_value:
  "readOrganizationID request st = (Inr organizationID, st') \<Longrightarrow>
   st' = st \<and> 0 < organizationID \<and> fitsOrgID organizationID"
  by (auto simp: readOrganizationID_def Let_def split: sum.splits routerError.splits
      dest: GetRouterPositiveIntParam_positive)

lemma readClusterName_value:
  "readClusterName uuid_Parse request st = (Inr clusterName, st') \<Longrightarrow>
   st' = st \<and> request ''cluster'' = Some clusterName \<and> uuid_Parse clusterName = None"
  by (auto simp: readClusterName_def Let_def split: option.splits if_splits)

subsection \<open>C7: GetRouterPositiveIntParam on the four values\<close>

text \<open>
  Claim C7. For a parameter of any name: on the value \<open>42\<close>
  \<open>GetRouterPositiveIntParam\<close> returns 42; on \<open>0\<close> and on \<open>-5\<close> it fails with a
  \<open>RouterParsingError\<close> that carries the name of the parameter, the offending value and the
  reason \<open>positive integer expected\<close>; on \<open>abc\<close> it fails with a \<open>RouterParsingError\<close>
  with the reason \<open>integer expected\<close>. For \<open>0\<close> and \<open>-5\<close> the value carried is the parsed
  integer; printed with \<open>%v\<close>, as the error's text prints it, it is the text of the
  parameter.
\<close>

theorem GetRouterPositiveIntParam_examples:
  "(request paramName = Some ''42'' \<longrightarrow> GetRouterPositiveIntParam request paramName = Inr 42) \<and>
   (request paramName = Some ''0'' \<longrightarrow>
      GetRouterPositiveIntParam request paramName =
        Inl (RouterParsingError paramName (Int64Value 0) ''positive integer expected'') \<and>
      formatValue (Int64Value 0) = ''0'') \<and>
   (request paramName = Some ''-5'' \<longrightarrow>
      GetRouterPositiveIntParam request paramName =
        Inl (RouterParsingError paramName (Int64Value (- 5)) ''positive integer expected'') \<and>
      formatValue (Int64Value (- 5)) = ''-5'') \<and>
   (request paramName = Some ''abc'' \<longrightarrow>
      GetRouterPositiveIntParam request paramName =
        Inl (RouterParsingError paramName (StringValue ''abc'') ''integer expected'') \<and>
      formatValue (StringValue ''abc'') = ''abc'')"
  by (simp add: router_simps format_simps)

text \<open>The theorem at the parameter \<open>organization\<close>, with the text of the errors.\<close>

theorem GetRouterPositiveIntParam_examples_witness:
  "GetRouterPositiveIntParam [''organization'' \<mapsto> ''42''] ''organization'' = Inr 42 \<and>
   GetRouterPositiveIntParam [''organization'' \<mapsto> ''0''] ''organization'' =
     Inl (RouterParsingError ''organization'' (Int64Value 0) ''positive integer expected'') \<and>
   GetRouterPositiveIntParam [''organization'' \<mapsto> ''-5''] ''organization'' =
     Inl (RouterParsingError ''organization'' (Int64Value (- 5)) ''positive integer expected'') \<and>
   GetRouterPositiveIntParam [''organization'' \<mapsto> ''abc''] ''organization'' =
     Inl (RouterParsingError ''organization'' (StringValue ''abc'') ''integer expected'') \<and>
   Error (RouterParsingError ''organization'' (Int64Value (- 5)) ''positive integer expected'') =
     ''Error during parsing param organization with value -5. Error: positive integer expected''"
proof -
  have h: "[''organization'' \<mapsto> ''42''] ''organization'' = Some ''42''"
    "[''organization'' \<mapsto> ''0''] ''organization'' = Some ''0''"
    "[''organization'' \<mapsto> ''-5''] ''organization'' = Some ''-5''"
    "[''organization'' \<mapsto> ''abc''] ''organization'' = Some ''abc''"
    by simp_all
  from GetRouterPositiveIntParam_examples [of "[''organization'' \<mapsto> ''42'']" "''organization''"]
    GetRouterPositiveIntParam_examples [of "[''organization'' \<mapsto> ''0'']" "''organization''"]
    GetRouterPositiveIntParam_examples [of "[''organization'' \<mapsto> ''-5'']" "''organization''"]
    GetRouterPositiveIntParam_examples [of "[''organization'' \<mapsto> ''abc'']" "''organization''"]
    h
  show ?thesis by simp
qed

subsection \<open>C8: readClusterName fails on the server's side\<close>

text \<open>
  Claim C8. When the parameter \<open>cluster\<close> is there and \<open>uuid.Parse\<close> rejects it,
  \<open>readClusterName\<close> logs \<open>Cluster name format is invalid\<close>, sends one response, with
  status 500 and that message, and returns an error. When the parameter is absent it does
  the same with the message \<open>Cluster name is not provided\<close>. No response with a status of
  the 400 class is sent in either case.
\<close>

theorem readClusterName_internal_error:
  "(request ''cluster'' = Some clusterName \<and> uuid_Parse clusterName = Some err \<longrightarrow>
      readClusterName uuid_Parse request st =
        (Inl (ErrorString ''Cluster name format is invalid''),
         st\<lparr>logged := logged st @ [''Cluster name format is invalid''],
            sent := sent st @ [(500, ''Cluster name format is invalid'')]\<rparr>)) \<and>
   (request ''cluster'' = None \<longrightarrow>
      readClusterName uuid_Parse request st =
        (Inl (ErrorString ''Cluster name is not provided''),
         st\<lparr>logged := logged st @ [''Cluster name is not provided''],
            sent := sent st @ [(500, ''Cluster name is not provided'')]\<rparr>))"
  by (simp add: readClusterName_def SendInternalServerError_def Send_def logPrintln_def
      StatusInternalServerError_def Let_def)

text \<open>
  The theorem at the value \<open>not-a-uuid\<close>, with a parser that rejects every string whose
  length is none of those of the forms of a UUID, and at a request without the parameter.
\<close>

theorem readClusterName_internal_error_witness:
  "readClusterName
     (\<lambda>s. if length s \<in> {32, 36, 38, 45} then None else Some (ErrorString ''invalid UUID length''))
     [''cluster'' \<mapsto> ''not-a-uuid''] \<lparr>logged = [], sent = []\<rparr> =
     (Inl (ErrorString ''Cluster name format is invalid''),
      \<lparr>logged = [''Cluster name format is invalid''],
       sent = [(500, ''Cluster name format is invalid'')]\<rparr>) \<and>
   readClusterName
     (\<lambda>s. if length s \<in> {32, 36, 38, 45} then None else Some (ErrorString ''invalid UUID length''))
     Map.empty \<lparr>logged = [], sent = []\<rparr> =
     (Inl (ErrorString ''Cluster name is not provided''),
      \<lparr>logged = [''Cluster name is not provided''],
       sent = [(500, ''Cluster name is not provided'')]\<rparr>)"
proof -
  let ?parse = "\<lambda>s :: string. if length s \<in> {32, 36, 38, 45 :: nat} then None
                              else Some (ErrorString ''invalid UUID length'')"
  let ?st = "\<lparr>logged = [], sent = []\<rparr>"
  have h1: "[''cluster'' \<mapsto> ''not-a-uuid''] ''cluster'' = Some ''not-a-uuid'' \<and>
            ?parse ''not-a-uuid'' = Some (ErrorString ''invalid UUID length'')"
    by simp
  have h2: "(Map.empty :: request) ''cluster'' = None" by simp
  from readClusterName_internal_error [of "[''cluster'' \<mapsto> ''not-a-uuid'']" "''not-a-uuid''"
      ?parse "ErrorString ''invalid UUID length''" ?st] h1
    readClusterName_internal_error [of Map.empty _ ?parse _ ?st] h2
  show ?thesis by simp
qed

subsection \<open>C9: readOrganizationID chooses the status by the kind of the error\<close>

text \<open>The errors of \<open>GetRouterPositiveIntParam\<close>: the parameter is missing, or its value is
  not an integer, or the integer is not positive.\<close>

lemma GetRouterPositiveIntParam_errors:
  "GetRouterPositiveIntParam request paramName = Inl err \<Longrightarrow>
   (request paramName = None \<and> err = RouterMissingParamError paramName) \<or>
   (\<exists>v. request paramName = Some v \<and> isParsingError err)"
  by (auto simp: GetRouterPositiveIntParam_def GetRouterIntParam_def GetRouterParam_def
      split: option.splits sum.splits if_splits)

text \<open>
  Claim C9. When \<open>GetRouterPositiveIntParam\<close> fails for the parameter \<open>organization\<close>,
  \<open>readOrganizationID\<close> logs the error, returns an error with the same text, and sends one
  response with the text of the error: with status 400 if the error is a
  \<open>RouterParsingError\<close>, with status 500 if it is of any other kind (here: the parameter is
  missing).
\<close>

theorem readOrganizationID_status_by_kind:
  "GetRouterPositiveIntParam request ''organization'' = Inl err \<longrightarrow>
     readOrganizationID request st =
       (Inl (ErrorString (''Error getting organization ID from request '' @ Error err)),
        st\<lparr>logged := logged st @ [''Error getting organization ID from request '' @ Error err],
           sent := sent st @ [(if isParsingError err then 400 else 500, Error err)]\<rparr>)"
  by (cases err)
    (simp_all add: readOrganizationID_def Send_def logPrintln_def StatusBadRequest_def
      StatusInternalServerError_def Let_def)

text \<open>The theorem at the value \<open>abc\<close> (status 400) and at a request without the parameter
  (status 500).\<close>

theorem readOrganizationID_status_by_kind_witness:
  "sent (snd (readOrganizationID [''organization'' \<mapsto> ''abc''] \<lparr>logged = [], sent = []\<rparr>)) =
     [(400, ''Error during parsing param organization with value abc. Error: integer expected'')] \<and>
   sent (snd (readOrganizationID Map.empty \<lparr>logged = [], sent = []\<rparr>)) =
     [(500, ''missing param organization'')]"
proof -
  let ?st = "\<lparr>logged = [], sent = []\<rparr>"
  have h1: "GetRouterPositiveIntParam [''organization'' \<mapsto> ''abc''] ''organization'' =
              Inl (RouterParsingError ''organization'' (StringValue ''abc'') ''integer expected'')"
    by (simp add: router_simps)
  have h2: "GetRouterPositiveIntParam Map.empty ''organization'' =
              Inl (RouterMissingParamError ''organization'')"
    by (simp add: router_simps)
  from readOrganizationID_status_by_kind [of "[''organization'' \<mapsto> ''abc'']" _ ?st] h1
    readOrganizationID_status_by_kind [of Map.empty _ ?st] h2
  show ?thesis by simp
qed

end
